theory Spec2Isabelle
  imports Complex_Main
begin

section \<open>Values, errors and dictionaries\<close>

text \<open>
  The program is the single module \<^verbatim>\<open>main.py\<close>. Python numbers (\<^verbatim>\<open>int\<close>, \<^verbatim>\<open>float\<close>) are
  modelled as exact reals: rounding, infinities and overflow of IEEE doubles are outside
  the model. A value decoded by \<^verbatim>\<open>json.loads\<close> is a \<open>json\<close>; the distinction between
  \<^verbatim>\<open>int\<close> and \<^verbatim>\<open>float\<close> is dropped, since no operation of the program depends on it.
\<close>

datatype json =
    JNull
  | JBool bool
  | JNum real
  | JStr string
  | JArr "json list"
  | JObj "(string \<times> json) list"

text \<open>The messages of the \<^verbatim>\<open>ValueError\<close>s the program raises, and the other exceptions.\<close>

datatype message =
    Required_not_set string
  | Invalid_JSON string
  | Invalid_START_DATE
  | Could_not_fetch_any_prices
  | Could_not_convert

datatype error =
    ValueError message
  | TypeError
  | AttributeError
  | KeyError
  | IndexError
  | ZeroDivisionError
  | JSONDecodeError
  | RequestException
  | SMTPException

text \<open>
  A Python \<^verbatim>\<open>dict\<close> keeps its keys in insertion order and holds each key once: it is an
  association list with distinct keys. \<open>dict_set\<close> is \<^verbatim>\<open>d[k] = v\<close>: an existing key keeps
  its place, a new key goes to the end.
\<close>

type_synonym 'v dict = "(string \<times> 'v) list"

fun dict_set :: "'v dict \<Rightarrow> string \<Rightarrow> 'v \<Rightarrow> 'v dict" where
  "dict_set [] k v = [(k, v)]"
| "dict_set ((k', v') # d) k v =
     (if k' = k then (k, v) # d else (k', v') # dict_set d k v)"

definition dict_get :: "'v dict \<Rightarrow> string \<Rightarrow> 'v \<Rightarrow> 'v" where
  \<comment> \<open>\<^verbatim>\<open>d.get(k, default)\<close>\<close>
  "dict_get d k dflt = (case map_of d k of None \<Rightarrow> dflt | Some v \<Rightarrow> v)"

definition dict_in :: "string \<Rightarrow> 'v dict \<Rightarrow> bool" where
  \<comment> \<open>\<^verbatim>\<open>k in d\<close>\<close>
  "dict_in k d = (map_of d k \<noteq> None)"

definition keys :: "'v dict \<Rightarrow> string list" where
  "keys d = map fst d"

definition dict_values :: "'v dict \<Rightarrow> 'v list" where
  "dict_values d = map snd d"

text \<open>The number a Python value stands for in arithmetic (\<^verbatim>\<open>bool\<close> is a subclass of \<^verbatim>\<open>int\<close>).\<close>

fun number :: "json \<Rightarrow> real option" where
  "number (JNum r) = Some r"
| "number (JBool b) = Some (if b then 1 else 0)"
| "number _ = None"

definition py_mul :: "json \<Rightarrow> real \<Rightarrow> error + real" where
  \<comment> \<open>\<^verbatim>\<open>shares * price\<close> with a float price: a type error unless \<^verbatim>\<open>shares\<close> is a number\<close>
  "py_mul shares price =
     (case number shares of None \<Rightarrow> Inl TypeError | Some s \<Rightarrow> Inr (s * price))"

definition py_truediv :: "real \<Rightarrow> real \<Rightarrow> error + real" where
  \<comment> \<open>\<^verbatim>\<open>a / b\<close>\<close>
  "py_truediv a b = (if b = 0 then Inl ZeroDivisionError else Inr (a / b))"

definition py_sum :: "real list \<Rightarrow> real" where
  \<comment> \<open>\<^verbatim>\<open>sum(xs)\<close>: starts at 0 and adds from the left\<close>
  "py_sum xs = foldl (+) 0 xs"

definition num_dict :: "real dict \<Rightarrow> json dict" where
  \<comment> \<open>a dictionary of numbers, as \<^verbatim>\<open>json.loads\<close> delivers it\<close>
  "num_dict d = map (\<lambda>(k, r). (k, JNum r)) d"

section \<open>Portfolio analysis\<close>

subsection \<open>\<^verbatim>\<open>calculate_portfolio_value\<close>\<close>

text \<open>
  The loop over \<^verbatim>\<open>holdings.items()\<close>, with the dictionary \<^verbatim>\<open>position_values\<close> built so far.
\<close>

fun position_values_loop :: "json dict \<Rightarrow> real dict \<Rightarrow> real dict \<Rightarrow> error + real dict" where
  "position_values_loop [] prices position_values = Inr position_values"
| "position_values_loop ((ticker, shares) # rest) prices position_values =
     (case map_of prices ticker of
        None \<Rightarrow> position_values_loop rest prices position_values
      | Some price \<Rightarrow>
          (case py_mul shares price of
             Inl e \<Rightarrow> Inl e
           | Inr v \<Rightarrow> position_values_loop rest prices (dict_set position_values ticker v)))"

definition calculate_portfolio_value :: "json dict \<Rightarrow> real dict \<Rightarrow> error + (real \<times> real dict)" where
  "calculate_portfolio_value holdings prices =
     (case position_values_loop holdings prices [] of
        Inl e \<Rightarrow> Inl e
      | Inr position_values \<Rightarrow> Inr (py_sum (dict_values position_values), position_values))"

subsection \<open>\<^verbatim>\<open>calculate_current_allocations\<close>\<close>

fun zero_comprehension :: "real dict \<Rightarrow> real dict \<Rightarrow> real dict" where
  \<comment> \<open>\<^verbatim>\<open>{ticker: 0.0 for ticker in position_values}\<close>\<close>
  "zero_comprehension [] acc = acc"
| "zero_comprehension ((ticker, value) # rest) acc =
     zero_comprehension rest (dict_set acc ticker 0)"

fun ratio_comprehension :: "real dict \<Rightarrow> real \<Rightarrow> real dict \<Rightarrow> error + real dict" where
  \<comment> \<open>\<^verbatim>\<open>{ticker: value / total_value for ticker, value in position_values.items()}\<close>\<close>
  "ratio_comprehension [] total_value acc = Inr acc"
| "ratio_comprehension ((ticker, value) # rest) total_value acc =
     (case py_truediv value total_value of
        Inl e \<Rightarrow> Inl e
      | Inr q \<Rightarrow> ratio_comprehension rest total_value (dict_set acc ticker q))"

definition calculate_current_allocations :: "real dict \<Rightarrow> real \<Rightarrow> error + real dict" where
  "calculate_current_allocations position_values total_value =
     (if total_value = 0 then Inr (zero_comprehension position_values [])
      else ratio_comprehension position_values total_value [])"

subsection \<open>\<^verbatim>\<open>check_drift\<close>\<close>

datatype direction = OVER | UNDER

record alert =
  a_ticker :: string
  a_target :: real
  a_current :: real
  a_drift :: real
  a_direction :: direction

fun check_drift_loop :: "real dict \<Rightarrow> real dict \<Rightarrow> real \<Rightarrow> alert list \<Rightarrow> alert list" where
  "check_drift_loop current_allocations [] threshold alerts = alerts"
| "check_drift_loop current_allocations ((ticker, target) # rest) threshold alerts =
     (let current = dict_get current_allocations ticker 0;
          drift = current - target;
          drift_pct = drift * 100
      in if \<bar>drift\<bar> > threshold
         then check_drift_loop current_allocations rest threshold
                (alerts @ [\<lparr>a_ticker = ticker, a_target = target * 100,
                            a_current = current * 100, a_drift = drift_pct,
                            a_direction = (if drift > 0 then OVER else UNDER)\<rparr>])
         else check_drift_loop current_allocations rest threshold alerts)"

definition check_drift :: "real dict \<Rightarrow> real dict \<Rightarrow> real \<Rightarrow> alert list" where
  "check_drift current_allocations target_allocations threshold =
     check_drift_loop current_allocations target_allocations threshold []"

section \<open>Configuration\<close>

text \<open>
  The process environment is a partial map from names to strings. \<^verbatim>\<open>json.loads\<close> and
  \<^verbatim>\<open>datetime.strptime\<close> are library functions and enter as parameters: \<open>loads\<close> returns
  \<open>None\<close> where the library raises \<^verbatim>\<open>JSONDecodeError\<close>, \<open>strptime\<close> returns \<open>None\<close> where it
  raises \<^verbatim>\<open>ValueError\<close>. Log output is not modelled.
\<close>

type_synonym environ = "string \<rightharpoonup> string"

definition WARMUP_PERIOD_DAYS :: int where
  "WARMUP_PERIOD_DAYS = 14"

definition str_truthy :: "string option \<Rightarrow> bool" where
  \<comment> \<open>truth value of an optional string: \<^verbatim>\<open>None\<close> and \<^verbatim>\<open>""\<close> are false\<close>
  "str_truthy value = (case value of None \<Rightarrow> False | Some s \<Rightarrow> s \<noteq> [])"

definition get_env_variable :: "environ \<Rightarrow> string \<Rightarrow> bool \<Rightarrow> error + string" where
  "get_env_variable environ name required =
     (let value = environ name
      in if required \<and> \<not> str_truthy value
         then Inl (ValueError (Required_not_set name))
         else Inr (if str_truthy value then (case value of Some s \<Rightarrow> s | None \<Rightarrow> []) else []))"

definition get_portfolio_holdings :: "(string \<Rightarrow> json option) \<Rightarrow> environ \<Rightarrow> error + json dict" where
  "get_portfolio_holdings loads environ =
     (case get_env_variable environ ''PORTFOLIO_HOLDINGS'' True of
        Inl e \<Rightarrow> Inl e
      | Inr holdings_json \<Rightarrow>
          (case loads holdings_json of
             None \<Rightarrow> Inl (ValueError (Invalid_JSON ''PORTFOLIO_HOLDINGS''))
           | Some holdings \<Rightarrow>
               \<comment> \<open>\<^verbatim>\<open>holdings.keys()\<close>: only a dict has it, and the handler catches
                   \<^verbatim>\<open>JSONDecodeError\<close> alone\<close>
               (case holdings of JObj items \<Rightarrow> Inr items | _ \<Rightarrow> Inl AttributeError)))"

text \<open>
  \<^verbatim>\<open>sum(allocations.values())\<close> raises \<^verbatim>\<open>TypeError\<close> at the first value that is not a number.
  Where it returns, every value is a number, and the dictionary is carried on as a
  dictionary of reals.
\<close>

fun numeric_items :: "json dict \<Rightarrow> error + real dict" where
  "numeric_items [] = Inr []"
| "numeric_items ((k, v) # rest) =
     (case number v of
        None \<Rightarrow> Inl TypeError
      | Some r \<Rightarrow> (case numeric_items rest of Inl e \<Rightarrow> Inl e | Inr d \<Rightarrow> Inr ((k, r) # d)))"

definition get_target_allocations :: "(string \<Rightarrow> json option) \<Rightarrow> environ \<Rightarrow> error + real dict" where
  "get_target_allocations loads environ =
     (case get_env_variable environ ''TARGET_ALLOCATIONS'' True of
        Inl e \<Rightarrow> Inl e
      | Inr allocations_json \<Rightarrow>
          (case loads allocations_json of
             None \<Rightarrow> Inl (ValueError (Invalid_JSON ''TARGET_ALLOCATIONS''))
           | Some allocations \<Rightarrow>
               (case allocations of
                  JObj items \<Rightarrow>
                    (case numeric_items items of
                       Inl e \<Rightarrow> Inl e
                     | Inr numbers \<Rightarrow>
                         (let total = py_sum (dict_values numbers) in Inr numbers))
                | _ \<Rightarrow> Inl AttributeError)))"

text \<open>
  A \<^verbatim>\<open>datetime\<close> is its number of microseconds since a fixed epoch; \<open>strptime\<close> yields the
  midnight of the parsed date. \<^verbatim>\<open>timedelta.days\<close> is the floor of the difference in days.
\<close>

type_synonym datetime = int

definition microseconds_per_day :: int where
  "microseconds_per_day = 86400000000"

definition days :: "int \<Rightarrow> int" where
  \<comment> \<open>\<^verbatim>\<open>.days\<close> of a \<^verbatim>\<open>timedelta\<close> of so many microseconds\<close>
  "days delta = delta div microseconds_per_day"

definition get_start_date :: "(string \<Rightarrow> datetime option) \<Rightarrow> environ \<Rightarrow> error + datetime" where
  "get_start_date strptime environ =
     (case get_env_variable environ ''START_DATE'' True of
        Inl e \<Rightarrow> Inl e
      | Inr start_date_str \<Rightarrow>
          (case strptime start_date_str of
             None \<Rightarrow> Inl (ValueError Invalid_START_DATE)
           | Some d \<Rightarrow> Inr d))"

definition is_warmup_period :: "(string \<Rightarrow> datetime option) \<Rightarrow> datetime \<Rightarrow> environ \<Rightarrow> error + bool" where
  "is_warmup_period strptime now environ =
     (case get_start_date strptime environ of
        Inl e \<Rightarrow> Inl e
      | Inr start_date \<Rightarrow>
          (let days_elapsed = days (now - start_date);
               in_warmup = days_elapsed < WARMUP_PERIOD_DAYS
           in Inr in_warmup))"

section \<open>Fetching prices\<close>

text \<open>
  A \<^verbatim>\<open>float\<close> taken from the price sources may be the missing value \<^verbatim>\<open>NaN\<close>. The frame
  returned by \<^verbatim>\<open>yf.download\<close> is represented by its \<^verbatim>\<open>Close\<close> columns, one series of cells
  per ticker, oldest row first; \<open>Download_failed\<close> is a call that raises.
\<close>

datatype pyfloat = NaN | Fin real

type_synonym series = "pyfloat list"

datatype download = Download_failed | Data "series dict"

definition empty :: "series dict \<Rightarrow> bool" where
  \<comment> \<open>\<^verbatim>\<open>.empty\<close>: no column or no row\<close>
  "empty close = (case close of [] \<Rightarrow> True | (t, col) # _ \<Rightarrow> col = [])"

definition dropna :: "series \<Rightarrow> series" where
  "dropna col = filter (\<lambda>c. c \<noteq> NaN) col"

definition iloc_last :: "'a list \<Rightarrow> error + 'a" where
  \<comment> \<open>\<^verbatim>\<open>.iloc[-1]\<close>\<close>
  "iloc_last xs = (case xs of [] \<Rightarrow> Inl IndexError | _ \<Rightarrow> Inr (last xs))"

definition first_ticker :: "string list \<Rightarrow> error + string" where
  \<comment> \<open>\<^verbatim>\<open>tickers[0]\<close>\<close>
  "first_ticker tickers = (case tickers of [] \<Rightarrow> Inl IndexError | t # _ \<Rightarrow> Inr t)"

text \<open>The loop of the multi-ticker branch; its body cannot raise in this model.\<close>

fun close_loop :: "series dict \<Rightarrow> string list \<Rightarrow> pyfloat dict \<Rightarrow> pyfloat dict" where
  "close_loop close [] prices = prices"
| "close_loop close (ticker # rest) prices =
     (case map_of close ticker of
        None \<Rightarrow> close_loop close rest prices
      | Some col \<Rightarrow>
          (let close_prices = dropna col
           in case iloc_last close_prices of
                Inl e \<Rightarrow> close_loop close rest prices
              | Inr p \<Rightarrow> close_loop close rest (dict_set prices ticker p)))"

definition batch_download :: "download \<Rightarrow> string list \<Rightarrow> pyfloat dict \<Rightarrow> pyfloat dict" where
  \<comment> \<open>the first \<^verbatim>\<open>try\<close> block of \<^verbatim>\<open>fetch_current_prices\<close>; an exception leaves \<open>prices\<close> as it is\<close>
  "batch_download data tickers prices =
     (case data of
        Download_failed \<Rightarrow> prices
      | Data close \<Rightarrow>
          if \<not> empty close then
            if length tickers = 1 then
              (case close of
                 [] \<Rightarrow> prices
               | (t, col) # _ \<Rightarrow>
                   if \<not> (col = []) then
                     (case (first_ticker tickers, iloc_last col) of
                        (Inr ticker, Inr p) \<Rightarrow> dict_set prices ticker p
                      | _ \<Rightarrow> prices)
                   else prices)
            else close_loop close tickers prices
          else prices)"

text \<open>
  The per-ticker lookup. \<open>None\<close> for a response is a request that raises; a response has a
  status code and a body, \<open>None\<close> where \<^verbatim>\<open>response.json()\<close> raises. \<^verbatim>\<open>float\<close> of a string is
  the parameter \<open>float_of_str\<close>, \<open>None\<close> where it raises.
\<close>

record response =
  status_code :: nat
  body :: "json option"

fun py_truthy :: "json \<Rightarrow> bool" where
  "py_truthy JNull = False"
| "py_truthy (JBool b) = b"
| "py_truthy (JNum r) = (r \<noteq> 0)"
| "py_truthy (JStr s) = (s \<noteq> [])"
| "py_truthy (JArr xs) = (xs \<noteq> [])"
| "py_truthy (JObj items) = (items \<noteq> [])"

fun json_get :: "json \<Rightarrow> string \<Rightarrow> json \<Rightarrow> error + json" where
  \<comment> \<open>\<^verbatim>\<open>v.get(k, default)\<close>: only a dict has \<^verbatim>\<open>get\<close>\<close>
  "json_get (JObj items) k dflt = Inr (dict_get items k dflt)"
| "json_get _ k dflt = Inl AttributeError"

fun index0 :: "json \<Rightarrow> error + json" where
  \<comment> \<open>\<^verbatim>\<open>v[0]\<close>; the keys of a decoded object are strings, never \<^verbatim>\<open>0\<close>\<close>
  "index0 (JArr (x # xs)) = Inr x"
| "index0 (JArr []) = Inl IndexError"
| "index0 (JStr (c # cs)) = Inr (JStr [c])"
| "index0 (JStr []) = Inl IndexError"
| "index0 (JObj items) = Inl KeyError"
| "index0 _ = Inl TypeError"

fun py_float :: "(string \<Rightarrow> pyfloat option) \<Rightarrow> json \<Rightarrow> error + pyfloat" where
  "py_float float_of_str (JNum r) = Inr (Fin r)"
| "py_float float_of_str (JBool b) = Inr (Fin (if b then 1 else 0))"
| "py_float float_of_str (JStr s) =
     (case float_of_str s of None \<Rightarrow> Inl (ValueError Could_not_convert) | Some f \<Rightarrow> Inr f)"
| "py_float float_of_str _ = Inl TypeError"

definition and_then :: "error + 'a \<Rightarrow> ('a \<Rightarrow> error + 'b) \<Rightarrow> error + 'b" where
  "and_then r f = (case r of Inl e \<Rightarrow> Inl e | Inr x \<Rightarrow> f x)"

definition market_price :: "json \<Rightarrow> error + json" where
  \<comment> \<open>\<^verbatim>\<open>meta.get('regularMarketPrice') or meta.get('previousClose')\<close>\<close>
  "market_price meta =
     and_then (json_get meta ''regularMarketPrice'' JNull) (\<lambda>regular.
       if py_truthy regular then Inr regular
       else json_get meta ''previousClose'' JNull)"

definition chart_price :: "(string \<Rightarrow> pyfloat option) \<Rightarrow> json \<Rightarrow> error + pyfloat option" where
  \<comment> \<open>from \<^verbatim>\<open>data = response.json()\<close> on: the price to record, if any\<close>
  "chart_price float_of_str data =
     and_then (json_get data ''chart'' (JObj [])) (\<lambda>chart.
     and_then (json_get chart ''result'' (JArr [])) (\<lambda>result.
       if py_truthy result then
         and_then (index0 result) (\<lambda>first.
         and_then (json_get first ''meta'' (JObj [])) (\<lambda>meta.
         and_then (market_price meta) (\<lambda>price.
           if py_truthy price
           then and_then (py_float float_of_str price) (\<lambda>f. Inr (Some f))
           else Inr None)))
       else Inr None))"

definition direct_lookup ::
  "(string \<Rightarrow> response option) \<Rightarrow> (string \<Rightarrow> pyfloat option) \<Rightarrow> string \<Rightarrow> pyfloat dict \<Rightarrow> pyfloat dict" where
  \<comment> \<open>one round of the second loop: every exception is caught and leaves \<open>prices\<close> as it is\<close>
  "direct_lookup get float_of_str ticker prices =
     (case get ticker of
        None \<Rightarrow> prices
      | Some response \<Rightarrow>
          if status_code response = 200 then
            (case body response of
               None \<Rightarrow> prices
             | Some data \<Rightarrow>
                 (case chart_price float_of_str data of
                    Inr (Some p) \<Rightarrow> dict_set prices ticker p
                  | _ \<Rightarrow> prices))
          else prices)"

fun direct_loop ::
  "(string \<Rightarrow> response option) \<Rightarrow> (string \<Rightarrow> pyfloat option) \<Rightarrow> string list \<Rightarrow> pyfloat dict \<Rightarrow> pyfloat dict" where
  "direct_loop get float_of_str [] prices = prices"
| "direct_loop get float_of_str (ticker # rest) prices =
     direct_loop get float_of_str rest (direct_lookup get float_of_str ticker prices)"

definition fetch_current_prices ::
  "(string list \<Rightarrow> download) \<Rightarrow> (string \<Rightarrow> response option) \<Rightarrow> (string \<Rightarrow> pyfloat option)
     \<Rightarrow> string list \<Rightarrow> pyfloat dict" where
  "fetch_current_prices download get float_of_str tickers =
     (let prices = batch_download (download tickers) tickers [];
          missing_tickers = filter (\<lambda>t. \<not> dict_in t prices) tickers
      in direct_loop get float_of_str missing_tickers prices)"

section \<open>Notification and the main program\<close>

record position =
  p_shares :: json
  p_price :: real
  p_value :: real
  p_target :: real
  p_current :: real

record portfolio_summary =
  s_total_value :: real
  s_positions :: "position dict"

text \<open>
  \<^verbatim>\<open>send_email\<close> reads its addresses from the environment, renders the message and hands it
  to the mail server. Rendering and delivery are the parameter \<open>deliver\<close>, which returns the
  exception raised, if any.
\<close>

definition send_email ::
  "environ \<Rightarrow> (string \<Rightarrow> string \<Rightarrow> string \<Rightarrow> alert list \<Rightarrow> portfolio_summary \<Rightarrow> error option)
     \<Rightarrow> alert list \<Rightarrow> portfolio_summary \<Rightarrow> bool \<Rightarrow> error + unit" where
  "send_email environ deliver alerts summary is_daily_summary =
     and_then (get_env_variable environ ''EMAIL_ADDRESS'' True) (\<lambda>email_address.
     and_then (get_env_variable environ ''EMAIL_PASSWORD'' True) (\<lambda>email_password.
     and_then (get_env_variable environ ''RECIPIENT_EMAIL'' False) (\<lambda>recipient.
       (let recipient_email = (if recipient \<noteq> [] then recipient else email_address)
        in case deliver email_address email_password recipient_email alerts summary of
             Some e \<Rightarrow> Inl e
           | None \<Rightarrow> Inr ()))))"

fun summary_loop ::
  "json dict \<Rightarrow> real dict \<Rightarrow> real dict \<Rightarrow> real dict \<Rightarrow> real dict \<Rightarrow> position dict \<Rightarrow> position dict" where
  \<comment> \<open>the loop over \<^verbatim>\<open>target_allocations\<close> that fills \<^verbatim>\<open>portfolio_summary["positions"]\<close>\<close>
  "summary_loop holdings prices position_values current_allocations [] acc = acc"
| "summary_loop holdings prices position_values current_allocations ((ticker, target) # rest) acc =
     summary_loop holdings prices position_values current_allocations rest
       (dict_set acc ticker
          \<lparr>p_shares = dict_get holdings ticker (JNum 0),
           p_price = dict_get prices ticker 0,
           p_value = dict_get position_values ticker 0,
           p_target = target,
           p_current = dict_get current_allocations ticker 0\<rparr>)"

definition build_summary ::
  "json dict \<Rightarrow> real dict \<Rightarrow> real \<Rightarrow> real dict \<Rightarrow> real dict \<Rightarrow> real dict \<Rightarrow> portfolio_summary" where
  "build_summary holdings prices total_value position_values current_allocations
     target_allocations =
     \<lparr>s_total_value = total_value,
      s_positions = summary_loop holdings prices position_values current_allocations
                    target_allocations []\<rparr>"

text \<open>
  The main program, with the stages it calls recorded in order. The fetch stage enters
  as the parameter \<open>fetch\<close>, the price map it returns for the requested tickers, with
  finite prices. \<open>DRIFT_THRESHOLD\<close> is the module constant read at import.
\<close>

datatype event =
    Fetch "string list"
  | Calculate_value
  | Calculate_allocations
  | Check_drift
  | Send_email "alert list" portfolio_summary bool

definition main ::
  "(string \<Rightarrow> json option) \<Rightarrow> (string \<Rightarrow> datetime option) \<Rightarrow> datetime
     \<Rightarrow> (string list \<Rightarrow> real dict)
     \<Rightarrow> (string \<Rightarrow> string \<Rightarrow> string \<Rightarrow> alert list \<Rightarrow> portfolio_summary \<Rightarrow> error option)
     \<Rightarrow> real \<Rightarrow> environ \<Rightarrow> event list \<times> (error + unit)" where
  "main loads strptime now fetch deliver DRIFT_THRESHOLD environ =
     (case get_portfolio_holdings loads environ of
        Inl e \<Rightarrow> ([], Inl e)
      | Inr holdings \<Rightarrow>
     (case get_target_allocations loads environ of
        Inl e \<Rightarrow> ([], Inl e)
      | Inr target_allocations \<Rightarrow>
     (case is_warmup_period strptime now environ of
        Inl e \<Rightarrow> ([], Inl e)
      | Inr warmup \<Rightarrow>
     (let prices = fetch (keys holdings)
      in if prices = []
         then ([Fetch (keys holdings)], Inl (ValueError Could_not_fetch_any_prices))
         else
     (case calculate_portfolio_value holdings prices of
        Inl e \<Rightarrow> ([Fetch (keys holdings), Calculate_value], Inl e)
      | Inr (total_value, position_values) \<Rightarrow>
     (case calculate_current_allocations position_values total_value of
        Inl e \<Rightarrow> ([Fetch (keys holdings), Calculate_value, Calculate_allocations], Inl e)
      | Inr current_allocations \<Rightarrow>
     (let alerts = check_drift current_allocations target_allocations DRIFT_THRESHOLD;
          summary = build_summary holdings prices total_value position_values
                      current_allocations target_allocations;
          trace = [Fetch (keys holdings), Calculate_value, Calculate_allocations, Check_drift]
      in if warmup
         then (trace @ [Send_email alerts summary True],
               send_email environ deliver alerts summary True)
         else if alerts \<noteq> []
         then (trace @ [Send_email alerts summary False],
               send_email environ deliver alerts summary False)
         else (trace, Inr ()))))))))"

section \<open>The value map in the words of the specification\<close>

text \<open>
  For each ticker of the holdings that has a price, in the order of the holdings, the
  ticker with shares times price; a ticker without a price is left out.
\<close>

fun value_map :: "real dict \<Rightarrow> real dict \<Rightarrow> real dict" where
  "value_map [] P = []"
| "value_map ((t, s) # H) P =
     (case map_of P t of None \<Rightarrow> value_map H P | Some p \<Rightarrow> (t, s * p) # value_map H P)"

section \<open>Auxiliary notions for the statements\<close>





text \<open>
  Stand-ins for the outside world in the examples: a fetch stage that resolves the
  requested tickers found in a table of quotes, and a mail server that accepts every
  message.
\<close>

definition quotes_fetch :: "real dict \<Rightarrow> string list \<Rightarrow> real dict" where
  "quotes_fetch quotes tickers = filter (\<lambda>(t, p). t \<in> set tickers) quotes"

definition delivered ::
  "string \<Rightarrow> string \<Rightarrow> string \<Rightarrow> alert list \<Rightarrow> portfolio_summary \<Rightarrow> error option" where
  "delivered email_address email_password recipient_email alerts summary = None"

text \<open>A sample configuration: 100 shares of one ticker A with target 100%, started at time 0.\<close>

definition sample_environ :: environ where
  \<open>sample_environ = map_of
     [(''PORTFOLIO_HOLDINGS'', ''{"A": 100}''), (''TARGET_ALLOCATIONS'', ''{"A": 1.0}''),
      (''START_DATE'', ''2026-01-01'')]\<close>

definition sample_loads :: "string \<Rightarrow> json option" where
  \<open>sample_loads = map_of
     [(''{"A": 100}'', JObj [(''A'', JNum 100)]), (''{"A": 1.0}'', JObj [(''A'', JNum 1)])]\<close>

definition sample_strptime :: "string \<Rightarrow> datetime option" where
  "sample_strptime = map_of [(''2026-01-01'', 0)]"

definition three_days :: datetime where
  "three_days = 3 * 86400000000"

section \<open>Dictionaries and sums\<close>

lemma map_of_dict_set: "map_of (dict_set d k v) = (map_of d)(k \<mapsto> v)"
  by (induction d k v rule: dict_set.induct) (auto simp: fun_eq_iff)

lemma dict_set_fresh: "k \<notin> fst ` set d \<Longrightarrow> dict_set d k v = d @ [(k, v)]"
  by (induction d k v rule: dict_set.induct) auto



lemma py_sum_sum_list: "py_sum xs = sum_list xs"
proof -
  have "foldl (+) a xs = a + sum_list xs" for a :: real
    by (induction xs arbitrary: a) (simp_all add: algebra_simps)
  from this [of 0] show ?thesis by (simp add: py_sum_def)
qed

section \<open>The drift analyzer\<close>

lemma check_drift_loop_eq:
  "check_drift_loop cur tgt th acc =
     acc @ map (\<lambda>(ticker, target).
                  \<lparr>a_ticker = ticker, a_target = target * 100,
                   a_current = dict_get cur ticker 0 * 100,
                   a_drift = (dict_get cur ticker 0 - target) * 100,
                   a_direction = (if dict_get cur ticker 0 - target > 0 then OVER else UNDER)\<rparr>)
             (filter (\<lambda>(ticker, target). \<bar>dict_get cur ticker 0 - target\<bar> > th) tgt)"
  by (induction cur tgt th acc rule: check_drift_loop.induct) (simp_all add: Let_def)

text \<open>
  Claim C1. \<open>check_drift\<close> returns, in the order of the target allocations, one alert for
  each target ticker whose \<open>|current - target|\<close> is strictly greater than the threshold and
  none for the others, where current is 0 for a ticker absent from the current
  allocations; the direction of an alert is OVER when \<open>current - target > 0\<close> and UNDER
  otherwise.
\<close>

theorem check_drift_alerts:
  "check_drift cur tgt th =
     map (\<lambda>(ticker, target).
            \<lparr>a_ticker = ticker, a_target = target * 100,
             a_current = dict_get cur ticker 0 * 100,
             a_drift = (dict_get cur ticker 0 - target) * 100,
             a_direction = (if dict_get cur ticker 0 - target > 0 then OVER else UNDER)\<rparr>)
         (filter (\<lambda>(ticker, target). \<bar>dict_get cur ticker 0 - target\<bar> > th) tgt)
   \<and> (\<forall>ticker target. (ticker, target) \<in> set tgt \<longrightarrow>
         ((\<exists>a \<in> set (check_drift cur tgt th). a_ticker a = ticker \<and> a_target a = target * 100)
            \<longleftrightarrow> \<bar>dict_get cur ticker 0 - target\<bar> > th))"
proof (intro conjI)
  show eq: "check_drift cur tgt th =
     map (\<lambda>(ticker, target).
            \<lparr>a_ticker = ticker, a_target = target * 100,
             a_current = dict_get cur ticker 0 * 100,
             a_drift = (dict_get cur ticker 0 - target) * 100,
             a_direction = (if dict_get cur ticker 0 - target > 0 then OVER else UNDER)\<rparr>)
         (filter (\<lambda>(ticker, target). \<bar>dict_get cur ticker 0 - target\<bar> > th) tgt)"
    by (simp add: check_drift_def check_drift_loop_eq)
  show "\<forall>ticker target. (ticker, target) \<in> set tgt \<longrightarrow>
         ((\<exists>a \<in> set (check_drift cur tgt th). a_ticker a = ticker \<and> a_target a = target * 100)
            \<longleftrightarrow> \<bar>dict_get cur ticker 0 - target\<bar> > th)"
    unfolding eq by (force simp add: split_def)
qed

theorem check_drift_alerts_witness:
  "check_drift [(''A'', 6 / 10), (''B'', 4 / 10)] [(''A'', 1 / 2), (''B'', 1 / 2), (''C'', 0)] (5 / 100) =
     [\<lparr>a_ticker = ''A'', a_target = 50, a_current = 60, a_drift = 10, a_direction = OVER\<rparr>,
      \<lparr>a_ticker = ''B'', a_target = 50, a_current = 40, a_drift = - 10, a_direction = UNDER\<rparr>]
   \<and> (''C'', 0) \<in> set [(''A'', 1 / 2), (''B'', 1 / 2), (''C'', 0 :: real)]
   \<and> \<not> (\<exists>a \<in> set (check_drift [(''A'', 6 / 10), (''B'', 4 / 10)]
                        [(''A'', 1 / 2), (''B'', 1 / 2), (''C'', 0)] (5 / 100)).
            a_ticker a = ''C'' \<and> a_target a = 0 * 100)"
  using check_drift_alerts [of "[(''A'', 6 / 10), (''B'', 4 / 10)]"
      "[(''A'', 1 / 2), (''B'', 1 / 2), (''C'', 0)]" "5 / 100"]
  by (simp add: dict_get_def)

section \<open>The portfolio calculator\<close>

lemma keys_value_map: "map fst (value_map H P) = filter (\<lambda>t. dict_in t P) (map fst H)"
  by (induction H P rule: value_map.induct) (auto simp: dict_in_def split: option.splits)

lemma position_values_loop_num:
  "distinct (map fst H) \<Longrightarrow> fst ` set H \<inter> fst ` set acc = {} \<Longrightarrow>
   position_values_loop (num_dict H) P acc = Inr (acc @ value_map H P)"
proof (induction H P arbitrary: acc rule: value_map.induct)
  case (1 P)
  then show ?case by (simp add: num_dict_def)
next
  case (2 t s H P)
  have nd: "num_dict ((t, s) # H) = (t, JNum s) # num_dict H" by (simp add: num_dict_def)
  show ?case
  proof (cases "map_of P t")
    case None
    with 2 show ?thesis by (simp add: nd)
  next
    case (Some p)
    from 2(3,4) have fresh: "t \<notin> fst ` set acc" by auto
    have "fst ` set H \<inter> fst ` set (dict_set acc t (s * p)) = {}"
      using 2(3,4) fresh by (auto simp: dict_set_fresh)
    with 2 Some show ?thesis by (simp add: nd py_mul_def dict_set_fresh fresh)
  qed
qed

lemma map_of_value_map:
  "map_of (value_map H P) t =
     (case (map_of H t, map_of P t) of (Some s, Some p) \<Rightarrow> Some (s * p) | _ \<Rightarrow> None)"
proof (induction H P rule: value_map.induct)
  case (1 P)
  then show ?case by simp
next
  case (2 t' s H P)
  then show ?case by (cases "t = t'") (auto split: option.splits)
qed

lemma sum_value_map:
  "sum_list (map snd (value_map H P))
     = (\<Sum>(t, s) \<leftarrow> H. case map_of P t of None \<Rightarrow> 0 | Some p \<Rightarrow> s * p)"
  by (induction H P rule: value_map.induct) (auto split: option.splits)

lemma calculate_portfolio_value_num:
  assumes "distinct (map fst H)"
  shows "calculate_portfolio_value (num_dict H) P
           = Inr (sum_list (map snd (value_map H P)), value_map H P)"
proof -
  have "position_values_loop (num_dict H) P [] = Inr (value_map H P)"
    using position_values_loop_num [OF assms, of "[]" P] by simp
  then show ?thesis
    by (simp add: calculate_portfolio_value_def py_sum_sum_list dict_values_def)
qed

text \<open>
  Claim C2. For a holdings map \<open>H\<close> of numbers and a price map \<open>P\<close>,
  \<open>calculate_portfolio_value\<close> returns a value map whose tickers are exactly those of \<open>H\<close>
  that have a price in \<open>P\<close>, each mapped to shares times price, and a total that is the sum
  of those values; a ticker of \<open>H\<close> without a price is absent from the value map and adds
  nothing to the total.
\<close>

theorem calculate_portfolio_value_correct:
  assumes "distinct (keys H)"
  shows "\<exists>total_value position_values.
     calculate_portfolio_value (num_dict H) P = Inr (total_value, position_values)
   \<and> keys position_values = filter (\<lambda>t. dict_in t P) (keys H)
   \<and> (\<forall>t. map_of position_values t =
          (case (map_of H t, map_of P t) of (Some s, Some p) \<Rightarrow> Some (s * p) | _ \<Rightarrow> None))
   \<and> total_value = sum_list (dict_values position_values)
   \<and> total_value = (\<Sum>(t, s) \<leftarrow> H. case map_of P t of None \<Rightarrow> 0 | Some p \<Rightarrow> s * p)"
proof -
  from assms have d: "distinct (map fst H)" by (simp add: keys_def)
  show ?thesis
    using calculate_portfolio_value_num [OF d, of P] map_of_value_map [of H P]
    by (simp add: keys_def dict_values_def keys_value_map sum_value_map)
qed

theorem calculate_portfolio_value_correct_witness:
  "distinct (keys [(''A'', 100 :: real), (''B'', 5)])
   \<and> (\<exists>total_value position_values.
        calculate_portfolio_value (num_dict [(''A'', 100), (''B'', 5)]) [(''A'', 10)]
          = Inr (total_value, position_values)
      \<and> keys position_values = [''A'']
      \<and> map_of position_values ''A'' = Some 1000
      \<and> map_of position_values ''B'' = None
      \<and> total_value = 1000)"
proof -
  have h: "distinct (keys [(''A'', 100 :: real), (''B'', 5)])" by (simp add: keys_def)
  show ?thesis
    using h calculate_portfolio_value_correct [OF h, of "[(''A'', 10)]"]
    by (auto simp add: keys_def dict_in_def dict_values_def)
qed








section \<open>The configuration loader\<close>

text \<open>
  Claim C9. A required variable set to the empty string is rejected exactly as an absent
  one, with the missing-variable error, so that the loaders of the holdings, the target
  allocations and the start date fail with that error before they parse anything; for a
  variable that is not required, absence and the empty string both give the empty string.
  A variable set to a non-empty string is returned as it is.
\<close>

theorem get_env_variable_empty:
  "(environ name = None \<or> environ name = Some [] \<longrightarrow>
      get_env_variable environ name True = Inl (ValueError (Required_not_set name))
    \<and> get_env_variable environ name False = Inr [])
 \<and> (environ name = Some (c # cs) \<longrightarrow>
      get_env_variable environ name required = Inr (c # cs))
 \<and> (environ ''PORTFOLIO_HOLDINGS'' = Some [] \<longrightarrow>
      get_portfolio_holdings loads environ
        = Inl (ValueError (Required_not_set ''PORTFOLIO_HOLDINGS'')))
 \<and> (environ ''TARGET_ALLOCATIONS'' = Some [] \<longrightarrow>
      get_target_allocations loads environ
        = Inl (ValueError (Required_not_set ''TARGET_ALLOCATIONS'')))
 \<and> (environ ''START_DATE'' = Some [] \<longrightarrow>
      get_start_date strptime environ = Inl (ValueError (Required_not_set ''START_DATE'')))"
  by (auto simp: get_env_variable_def str_truthy_def get_portfolio_holdings_def
      get_target_allocations_def get_start_date_def)

theorem get_env_variable_empty_witness:
  "map_of [(''PORTFOLIO_HOLDINGS'', [])] ''PORTFOLIO_HOLDINGS'' = Some []
 \<and> get_env_variable (map_of [(''PORTFOLIO_HOLDINGS'', [])]) ''PORTFOLIO_HOLDINGS'' True
      = Inl (ValueError (Required_not_set ''PORTFOLIO_HOLDINGS''))
 \<and> get_env_variable (map_of [(''PORTFOLIO_HOLDINGS'', [])]) ''PORTFOLIO_HOLDINGS'' False = Inr []
 \<and> get_portfolio_holdings (map_of [([], JObj [])]) (map_of [(''PORTFOLIO_HOLDINGS'', [])])
      = Inl (ValueError (Required_not_set ''PORTFOLIO_HOLDINGS''))"
  using get_env_variable_empty [of "map_of [(''PORTFOLIO_HOLDINGS'', [])]" "''PORTFOLIO_HOLDINGS''"
      _ _ _ "map_of [([], JObj [])]"]
  by simp

lemma numeric_items_eq:
  "numeric_items items =
     (if list_all (\<lambda>v. number v \<noteq> None) (map snd items)
      then Inr (map (\<lambda>(k, v). (k, the (number v))) items) else Inl TypeError)"
  by (induction items rule: numeric_items.induct) (auto split: option.splits sum.splits)

lemma get_env_variable_set:
  "environ name = Some (c # cs) \<Longrightarrow> get_env_variable environ name required = Inr (c # cs)"
  by (simp add: get_env_variable_def str_truthy_def)

lemma get_portfolio_holdings_eq:
  "environ ''PORTFOLIO_HOLDINGS'' = Some (c # cs) \<Longrightarrow>
   get_portfolio_holdings loads environ =
     (case loads (c # cs) of
        None \<Rightarrow> Inl (ValueError (Invalid_JSON ''PORTFOLIO_HOLDINGS''))
      | Some (JObj items) \<Rightarrow> Inr items
      | Some _ \<Rightarrow> Inl AttributeError)"
  by (simp add: get_portfolio_holdings_def get_env_variable_set split: option.splits json.splits)

lemma get_target_allocations_eq:
  "environ ''TARGET_ALLOCATIONS'' = Some (c # cs) \<Longrightarrow>
   get_target_allocations loads environ =
     (case loads (c # cs) of
        None \<Rightarrow> Inl (ValueError (Invalid_JSON ''TARGET_ALLOCATIONS''))
      | Some (JObj items) \<Rightarrow> numeric_items items
      | Some _ \<Rightarrow> Inl AttributeError)"
  by (simp add: get_target_allocations_def get_env_variable_set Let_def
      split: option.splits json.splits sum.splits)

text \<open>
  Claim C6, as the code has it. With the variables set, loading fails with the parse
  error exactly when the text is not valid JSON. Valid JSON that is not an object fails
  with an attribute error. A target-allocations object with a value that is not a number
  fails with a type error, and one with numbers only is returned; a holdings object is
  returned whatever its values are.
\<close>

theorem config_parse_errors:
  assumes "environ ''PORTFOLIO_HOLDINGS'' = Some (c # cs)"
      and "environ ''TARGET_ALLOCATIONS'' = Some (c' # cs')"
  shows "(get_portfolio_holdings loads environ
            = Inl (ValueError (Invalid_JSON ''PORTFOLIO_HOLDINGS'')) \<longleftrightarrow> loads (c # cs) = None)
     \<and> (get_target_allocations loads environ
            = Inl (ValueError (Invalid_JSON ''TARGET_ALLOCATIONS'')) \<longleftrightarrow> loads (c' # cs') = None)
     \<and> (\<forall>items. loads (c # cs) = Some (JObj items) \<longrightarrow>
            get_portfolio_holdings loads environ = Inr items)
     \<and> (\<forall>j. loads (c # cs) = Some j \<and> (\<forall>items. j \<noteq> JObj items) \<longrightarrow>
            get_portfolio_holdings loads environ = Inl AttributeError)
     \<and> (\<forall>j. loads (c' # cs') = Some j \<and> (\<forall>items. j \<noteq> JObj items) \<longrightarrow>
            get_target_allocations loads environ = Inl AttributeError)
     \<and> (\<forall>items. loads (c' # cs') = Some (JObj items)
            \<and> (\<exists>v \<in> snd ` set items. number v = None) \<longrightarrow>
            get_target_allocations loads environ = Inl TypeError)
     \<and> (\<forall>items. loads (c' # cs') = Some (JObj items)
            \<and> (\<forall>v \<in> snd ` set items. number v \<noteq> None) \<longrightarrow>
            (\<exists>d. get_target_allocations loads environ = Inr d \<and> keys d = keys items
                \<and> map (Some \<circ> snd) d = map (number \<circ> snd) items))"
  unfolding get_portfolio_holdings_eq [where environ = environ, OF assms(1)]
    get_target_allocations_eq [where environ = environ, OF assms(2)]
  by (intro conjI)
     (auto simp add: numeric_items_eq list_all_iff keys_def split_def
        split: option.splits json.splits)

theorem config_parse_errors_witness:
  \<open>map_of [(''PORTFOLIO_HOLDINGS'', ''{"A": 100''), (''TARGET_ALLOCATIONS'', ''{"A": "x"}'')]
      ''PORTFOLIO_HOLDINGS'' = Some ''{"A": 100''
   \<and> map_of [(''PORTFOLIO_HOLDINGS'', ''{"A": 100''), (''TARGET_ALLOCATIONS'', ''{"A": "x"}'')]
      ''TARGET_ALLOCATIONS'' = Some ''{"A": "x"}''
   \<and> get_portfolio_holdings
        (map_of [(''{"A": "x"}'', JObj [(''A'', JStr ''x'')])])
        (map_of [(''PORTFOLIO_HOLDINGS'', ''{"A": 100''), (''TARGET_ALLOCATIONS'', ''{"A": "x"}'')])
      = Inl (ValueError (Invalid_JSON ''PORTFOLIO_HOLDINGS''))
   \<and> get_target_allocations
        (map_of [(''{"A": "x"}'', JObj [(''A'', JStr ''x'')])])
        (map_of [(''PORTFOLIO_HOLDINGS'', ''{"A": 100''), (''TARGET_ALLOCATIONS'', ''{"A": "x"}'')])
      = Inl TypeError\<close>
proof -
  let ?environ = \<open>map_of [(''PORTFOLIO_HOLDINGS'', ''{"A": 100''),
                            (''TARGET_ALLOCATIONS'', ''{"A": "x"}'')]\<close>
  let ?loads = \<open>map_of [(''{"A": "x"}'', JObj [(''A'', JStr ''x'')])]\<close>
  have h: \<open>?environ ''PORTFOLIO_HOLDINGS'' = Some ''{"A": 100''\<close> by simp
  have t: \<open>?environ ''TARGET_ALLOCATIONS'' = Some ''{"A": "x"}''\<close> by simp
  note r = config_parse_errors [OF h t, of ?loads]
  have l1: \<open>?loads ''{"A": 100'' = None\<close> by simp
  have l2: \<open>?loads ''{"A": "x"}'' = Some (JObj [(''A'', JStr ''x'')])\<close> by simp
  have n: "\<exists>v \<in> snd ` set [(''A'', JStr ''x'')]. number v = None" by simp
  from r l1 have a: "get_portfolio_holdings ?loads ?environ
      = Inl (ValueError (Invalid_JSON ''PORTFOLIO_HOLDINGS''))" by blast
  from r l2 n have b: "get_target_allocations ?loads ?environ = Inl TypeError" by blast
  from h t a b show ?thesis by blast
qed

theorem config_parse_errors_counterexample:
  \<open>get_portfolio_holdings
      (map_of [(''{"A": "x"}'', JObj [(''A'', JStr ''x'')])])
      (map_of [(''PORTFOLIO_HOLDINGS'', ''{"A": "x"}'')])
     = Inr [(''A'', JStr ''x'')]
   \<and> get_portfolio_holdings
      (map_of [(''[1, 2]'', JArr [JNum 1, JNum 2])])
      (map_of [(''PORTFOLIO_HOLDINGS'', ''[1, 2]'')])
     = Inl AttributeError
   \<and> get_target_allocations
      (map_of [(''{"A": "x"}'', JObj [(''A'', JStr ''x'')])])
      (map_of [(''TARGET_ALLOCATIONS'', ''{"A": "x"}'')])
     = Inl TypeError\<close>
  by (simp add: get_portfolio_holdings_def get_target_allocations_def get_env_variable_def
      str_truthy_def)

section \<open>The warm-up period and the main program\<close>



text \<open>
  Claim C4. Once the configuration is loaded: when the fetch stage returns an empty price
  map, the run ends with the error that no prices could be fetched, and only the fetch
  stage has been called; when the price map is not empty, the run goes on to the
  portfolio calculator.
\<close>

theorem main_no_prices:
  assumes "get_portfolio_holdings loads environ = Inr holdings"
    and "get_target_allocations loads environ = Inr target_allocations"
    and "is_warmup_period strptime now environ = Inr warmup"
  shows "(fetch (keys holdings) = [] \<longrightarrow>
           main loads strptime now fetch deliver threshold environ
             = ([Fetch (keys holdings)], Inl (ValueError Could_not_fetch_any_prices)))
       \<and> (fetch (keys holdings) \<noteq> [] \<longrightarrow>
           Calculate_value \<in> set (fst (main loads strptime now fetch deliver threshold environ))
         \<and> main loads strptime now fetch deliver threshold environ
             \<noteq> ([Fetch (keys holdings)], Inl (ValueError Could_not_fetch_any_prices)))"
  using assms by (auto simp add: main_def Let_def split: sum.splits)

theorem main_no_prices_witness:
  "quotes_fetch [] (keys [(''A'', JNum 100)]) = []
   \<and> main sample_loads sample_strptime three_days (quotes_fetch []) delivered (5 / 100)
        sample_environ
     = ([Fetch [''A'']], Inl (ValueError Could_not_fetch_any_prices))
   \<and> quotes_fetch [(''A'', 10)] (keys [(''A'', JNum 100)]) \<noteq> []
   \<and> Calculate_value \<in> set (fst (main sample_loads sample_strptime three_days
        (quotes_fetch [(''A'', 10)]) delivered (5 / 100) sample_environ))"
proof -
  have h1: "get_portfolio_holdings sample_loads sample_environ = Inr [(''A'', JNum 100)]"
    by (simp add: get_portfolio_holdings_def get_env_variable_def str_truthy_def
        sample_loads_def sample_environ_def)
  have h2: "get_target_allocations sample_loads sample_environ = Inr [(''A'', 1)]"
    by (simp add: get_target_allocations_def get_env_variable_def str_truthy_def
        sample_loads_def sample_environ_def)
  have h3: "is_warmup_period sample_strptime three_days sample_environ = Inr True"
    by (simp add: is_warmup_period_def get_start_date_def get_env_variable_def str_truthy_def
        days_def microseconds_per_day_def WARMUP_PERIOD_DAYS_def three_days_def
        sample_strptime_def sample_environ_def)
  have k: "keys [(''A'', JNum 100)] = [''A'']" by (simp add: keys_def)
  have e: "quotes_fetch [] (keys [(''A'', JNum 100)]) = []"
    by (simp add: quotes_fetch_def)
  have n: "quotes_fetch [(''A'', 10)] (keys [(''A'', JNum 100)]) \<noteq> []"
    by (simp add: quotes_fetch_def keys_def)
  note r1 = main_no_prices [OF h1 h2 h3, of "quotes_fetch []" delivered "5 / 100", unfolded k]
  note r2 = main_no_prices [OF h1 h2 h3, of "quotes_fetch [(''A'', 10)]" delivered "5 / 100"]
  from r1 e [unfolded k] r2 n e show ?thesis by blast
qed

section \<open>The price fetcher\<close>

lemma close_loop_most_recent:
  "map_of (close_loop close tickers prices) t =
     (if t \<in> set tickers then
        (case map_of close t of
           None \<Rightarrow> map_of prices t
         | Some col \<Rightarrow> if dropna col = [] then map_of prices t else Some (last (dropna col)))
      else map_of prices t)"
proof (induction tickers arbitrary: prices)
  case Nil
  then show ?case by simp
next
  case (Cons ticker rest)
  show ?case
  proof (cases "map_of close ticker")
    case None
    with Cons show ?thesis by auto
  next
    case (Some col)
    show ?thesis
    proof (cases "dropna col")
      case Nil
      with Some Cons show ?thesis by (auto simp: iloc_last_def)
    next
      case (Cons c cs)
      with Some Cons.IH show ?thesis
        by (auto simp: iloc_last_def map_of_dict_set split: option.splits)
    qed
  qed
qed

text \<open>
  Claim C5. In the batch attempt, the price recorded for a ticker should be its most
  recent closing price that is not missing. The branch for several tickers drops the
  missing cells first (\<open>close_loop_most_recent\<close>); the branch for a single ticker takes the
  last cell as it is. For the single ticker FXAIX with closes 10 and then a missing cell,
  the price recorded is the missing value, and the per-ticker lookup is not tried, since
  the ticker has an entry. Requested together with QQQM, the same column gives 10.
\<close>

theorem batch_download_single_ticker_last_cell:
  "batch_download (Data [(''FXAIX'', [Fin 10, NaN])]) [''FXAIX''] [] = [(''FXAIX'', NaN)]
 \<and> fetch_current_prices (\<lambda>tickers. Data [(''FXAIX'', [Fin 10, NaN])]) get float_of_str
      [''FXAIX''] = [(''FXAIX'', NaN)]
 \<and> batch_download (Data [(''FXAIX'', [Fin 10, NaN]), (''QQQM'', [Fin 20, Fin 21])])
      [''FXAIX'', ''QQQM''] [] = [(''FXAIX'', Fin 10), (''QQQM'', Fin 21)]"
  by (simp add: batch_download_def fetch_current_prices_def empty_def first_ticker_def
      iloc_last_def dict_in_def dropna_def Let_def)








section \<open>Holdings outside the target allocations\<close>















end
